theory Spec2Isabelle
  imports Complex_Main "HOL-Library.Word"
begin

section \<open>Values\<close>

text \<open>
  The counters of the demo logic are JavaScript numbers (\<^verbatim>\<open>let count: number = 100\<close>), and
  the variables they back are declared \<^verbatim>\<open>DataType.Double\<close>. A number is NaN, an infinity or a
  finite value. Every comparison with NaN is false, and NaN is absorbing for addition; both
  are as in binary64, and so is every comparison of two finite values. The sum of two finite
  values is the exact sum. Binary64 gives that sum when the operands and the sum are integers
  below \<open>2^53\<close>, as are the constants of the source (1, 5, 50, 60, 100, 120, 1000) and every
  value that the ticks reach from the start; on other finite operands binary64 may round,
  and the rounding is not modelled. The theorems below evaluate \<open>num_add\<close> only at NaN and at
  such integers.
\<close>

datatype number = NaN | NegInf | Fin real | PosInf

fun num_lt :: "number \<Rightarrow> number \<Rightarrow> bool" where
  "num_lt NaN _ = False"
| "num_lt _ NaN = False"
| "num_lt PosInf _ = False"
| "num_lt _ NegInf = False"
| "num_lt NegInf _ = True"
| "num_lt _ PosInf = True"
| "num_lt (Fin a) (Fin b) = (a < b)"

definition num_gt :: "number \<Rightarrow> number \<Rightarrow> bool" where
  "num_gt a b = num_lt b a"

fun num_ge :: "number \<Rightarrow> number \<Rightarrow> bool" where
  "num_ge NaN _ = False"
| "num_ge _ NaN = False"
| "num_ge PosInf _ = True"
| "num_ge _ NegInf = True"
| "num_ge NegInf _ = False"
| "num_ge _ PosInf = False"
| "num_ge (Fin a) (Fin b) = (a \<ge> b)"

definition num_le :: "number \<Rightarrow> number \<Rightarrow> bool" where
  "num_le a b = num_ge b a"

fun num_add :: "number \<Rightarrow> number \<Rightarrow> number" where
  "num_add NaN _ = NaN"
| "num_add _ NaN = NaN"
| "num_add PosInf NegInf = NaN"
| "num_add NegInf PosInf = NaN"
| "num_add PosInf _ = PosInf"
| "num_add _ PosInf = PosInf"
| "num_add NegInf _ = NegInf"
| "num_add _ NegInf = NegInf"
| "num_add (Fin a) (Fin b) = Fin (a + b)"

text \<open>
  \<open>in_range lo hi w\<close>: the value \<open>w\<close> is at or within the inclusive range \<open>[lo, hi]\<close>.
  NaN is in no range.
\<close>

definition in_range :: "number \<Rightarrow> number \<Rightarrow> number \<Rightarrow> bool" where
  "in_range lo hi w = (num_ge w lo \<and> num_le w hi)"

datatype StatusCode = Good | BadOutOfRange | BadNotWritable

text \<open>The values that the demo logic stores in nodes of the address space.\<close>

datatype variant =
    VString string
  | VLocalizedText string
  | VUInt16 "16 word"
  | VInt32 "32 word"
  | VDouble number
  | VNodeId nat
  | VRange real real

section \<open>The condition and the alarm\<close>

text \<open>
  \<^verbatim>\<open>cond\<close> of \<^verbatim>\<open>createOwnServerAddressspaceLogic\<close>: the four properties that the source
  sets. \<open>time\<close> is the value of \<^verbatim>\<open>new Date()\<close>, in milliseconds.
\<close>

record condition =
  severity :: "16 word"
  message :: string
  retain :: bool
  time :: nat

definition good_text :: string where
  "good_text = ''MyCondition is Good!''"

definition bad_text :: string where
  "bad_text = ''MyCondition is Bad!''"

text \<open>The four \<^verbatim>\<open>setValueFromSource\<close> calls that follow \<^verbatim>\<open>instantiateCondition\<close>.\<close>

definition cond_init :: "nat \<Rightarrow> condition" where
  "cond_init now = \<lparr>severity = 150, message = good_text, retain = True, time = now\<rparr>"

text \<open>
  The body of the 15000 ms interval. The snapshot that it raises afterwards
  (\<^verbatim>\<open>raiseConditionEvent(snap, true)\<close>) copies the condition and changes none of its fields.
\<close>

definition cond_tick :: "nat \<Rightarrow> condition \<Rightarrow> condition" where
  "cond_tick now c =
     (if message c = good_text
      then c\<lparr>severity := 800, message := bad_text, time := now\<rparr>
      else c\<lparr>severity := 150, message := good_text, time := now\<rparr>)"

text \<open>The state of the condition as its tick reads it: the message is the good text, or not.\<close>

datatype cond_state = StateGood | StateBad

definition state_of :: "condition \<Rightarrow> cond_state" where
  "state_of c = (if message c = good_text then StateGood else StateBad)"

text \<open>The options of \<^verbatim>\<open>instantiateNonExclusiveLimitAlarm\<close>, and the retain flag set after it.\<close>

record limit_alarm =
  highHighLimit :: real
  highLimit :: real
  lowLimit :: real
  lowLowLimit :: real
  alarm_retain :: bool

definition alarm_init :: limit_alarm where
  "alarm_init = \<lparr>highHighLimit = 50, highLimit = 40, lowLimit = 20, lowLowLimit = - 5,
                  alarm_retain = True\<rparr>"

section \<open>The state of the server\<close>

text \<open>
  Node identifiers as the source writes them: \<^verbatim>\<open>ns=${diIdx};i=15106\<close> is \<open>DI 15106\<close>, and
  \<^verbatim>\<open>ns=${idx};i=55188\<close> is \<open>MT 55188\<close> (the namespace of the showcase machine tool).
\<close>

datatype nodeid = DI nat | MT nat

text \<open>
  The closure variables of \<^verbatim>\<open>createOwnServerAddressspaceLogic\<close> (\<open>count\<close>, \<open>myValue\<close>, the
  condition and the alarm), the closure variable of \<^verbatim>\<open>createShowCaseMachineToolLogic\<close>
  (\<open>override\<close>), and the address space that both receive: the stored value of every node that
  exists, and the trace of the calls of \<^verbatim>\<open>findNode\<close>, oldest first.
\<close>

record server =
  count :: number
  myValue :: number
  cond :: condition
  alarm :: limit_alarm
  override :: number
  nodes :: "nodeid \<rightharpoonup> variant"
  resolved :: "nodeid list"

datatype error = TypeError

text \<open>\<^verbatim>\<open>addressSpace.findNode(id)\<close>: the node, or nothing; the call is recorded.\<close>

definition findNode :: "nodeid \<Rightarrow> server \<Rightarrow> variant option \<times> server" where
  "findNode i s = (nodes s i, s\<lparr>resolved := resolved s @ [i]\<rparr>)"

text \<open>\<^verbatim>\<open>node.setValueFromSource(v)\<close> on a node that was found.\<close>

definition setValueFromSource :: "nodeid \<Rightarrow> variant \<Rightarrow> server \<Rightarrow> server" where
  "setValueFromSource i v s = s\<lparr>nodes := (nodes s)(i \<mapsto> v)\<rparr>"

text \<open>
  \<^verbatim>\<open>const n = addressSpace?.findNode(id); n?.setValueFromSource(v)\<close>: a node that is not
  found is skipped.
\<close>

definition setIfFound :: "nodeid \<Rightarrow> variant \<Rightarrow> server \<Rightarrow> server" where
  "setIfFound i v s =
     (case findNode i s of
        (None, s1) \<Rightarrow> s1
      | (Some _, s1) \<Rightarrow> setValueFromSource i v s1)"

section \<open>The own address-space logic\<close>

text \<open>
  The start of \<^verbatim>\<open>createOwnServerAddressspaceLogic\<close>: one lookup (the software type), then the
  initial values of the closure variables. \<open>now\<close> is the \<^verbatim>\<open>new Date()\<close> of the condition.
  The objects and event types that it adds are reached through the handles it keeps
  (\<^verbatim>\<open>myEvent\<close>, \<^verbatim>\<open>cond\<close>, \<^verbatim>\<open>alarm\<close>), never through a lookup.
\<close>

definition createOwnServerAddressspaceLogic :: "nat \<Rightarrow> server \<Rightarrow> server" where
  "createOwnServerAddressspaceLogic now s =
     (case findNode (DI 15106) s of
        (_, s1) \<Rightarrow> s1\<lparr>count := Fin 100, myValue := Fin 25, cond := cond_init now,
                       alarm := alarm_init\<rparr>)"

text \<open>
  The payload of \<^verbatim>\<open>myEvent.raiseEvent(demoEvent, eventData)\<close>: the message
  \<^verbatim>\<open>`Severity at: ${count}`\<close> is kept as the number it prints, the severity is the Int32
  that the variant holds.
\<close>

record RaiseEventData =
  ev_message :: number
  ev_severity :: "32 word"

text \<open>
  The body of the 60000 ms interval, in two parts. \<open>count_advance\<close> is the assignment to
  \<open>count\<close> with its reset. \<open>count_tick\<close> is the whole body: after the assignment it builds
  the event from the new count and raises it. \<^verbatim>\<open>new Variant({value: count, dataType:
  DataType.Int32})\<close> is a constructor of the OPC UA library, which is not code of this
  repository: it is the parameter \<open>toInt32\<close>, which gives the Int32 that the variant holds
  for a number, or throws. The assignment is made before the constructor runs, so it stays
  when the constructor throws.
\<close>

definition count_advance :: "server \<Rightarrow> server" where
  "count_advance s =
     (let c = num_add (count s) (Fin 50)
      in s\<lparr>count := (if num_gt c (Fin 1000) then Fin 100 else c)\<rparr>)"

definition count_tick ::
  "(number \<Rightarrow> error + 32 word) \<Rightarrow> server \<Rightarrow> (error + RaiseEventData) \<times> server" where
  "count_tick toInt32 s =
     (let s' = count_advance s
      in case toInt32 (count s') of
           Inl e \<Rightarrow> (Inl e, s')
         | Inr sev \<Rightarrow> (Inr \<lparr>ev_message = count s', ev_severity = sev\<rparr>, s'))"

text \<open>The \<^verbatim>\<open>value: { get, set }\<close> of MySeverity.\<close>

definition mySeverity_get :: "server \<Rightarrow> variant" where
  "mySeverity_get s = VDouble (count s)"

definition mySeverity_set :: "number \<Rightarrow> server \<Rightarrow> StatusCode \<times> server" where
  "mySeverity_set w s =
     (if num_gt w (Fin 1000) \<or> num_lt w (Fin 100)
      then (BadOutOfRange, s)
      else (Good, s\<lparr>count := w\<rparr>))"

text \<open>The \<^verbatim>\<open>value: { get }\<close> of MyVar, and the body of its 1000 ms interval.\<close>

definition myVar_get :: "server \<Rightarrow> variant" where
  "myVar_get s = VDouble (myValue s)"

definition myValue_tick :: "server \<Rightarrow> server" where
  "myValue_tick s =
     (let v = num_add (myValue s) (Fin 1)
      in s\<lparr>myValue := (if num_ge v (Fin 60) then Fin (- 25) else v)\<rparr>)"

text \<open>A value binding as \<^verbatim>\<open>addVariable\<close> receives it: a getter, and a setter or none.\<close>

record value_binding =
  getter :: "server \<Rightarrow> variant"
  setter :: "(number \<Rightarrow> server \<Rightarrow> StatusCode \<times> server) option"

definition mySeverity :: value_binding where
  "mySeverity = \<lparr>getter = mySeverity_get, setter = Some mySeverity_set\<rparr>"

definition myVar :: value_binding where
  "myVar = \<lparr>getter = myVar_get, setter = None\<rparr>"

text \<open>The condition's interval, on the server.\<close>

definition condition_tick :: "nat \<Rightarrow> server \<Rightarrow> server" where
  "condition_tick now s = s\<lparr>cond := cond_tick now (cond s)\<rparr>"

section \<open>The machine-tool logic\<close>

text \<open>
  The start of \<^verbatim>\<open>createShowCaseMachineToolLogic\<close>, in the order of the source: three nodes
  are resolved and set, the intervals are registered with \<open>override\<close> at 50, and three more
  nodes are resolved. The last one is used without \<^verbatim>\<open>?.\<close>: when it is missing, the call
  of \<^verbatim>\<open>setValueFromSource\<close> on it throws.
\<close>

definition createShowCaseMachineToolLogic :: "server \<Rightarrow> (error + unit) \<times> server" where
  "createShowCaseMachineToolLogic s =
     (let s1 = setIfFound (MT 55186) (VString ''Program_1'') s;
          s2 = setIfFound (MT 55185) (VUInt16 1) s1;
          s3 = setIfFound (MT 55188) (VLocalizedText ''Running'') s2;
          s4 = s3\<lparr>override := Fin 50\<rparr>;
          s5 = setIfFound (MT 55238) (VDouble (Fin 100)) s4;
          s6 = setIfFound (MT 55240) (VRange 60 100) s5
      in case findNode (MT 55233) s6 of
           (None, s7) \<Rightarrow> (Inl TypeError, s7)
         | (Some _, s7) \<Rightarrow> (Inr (), setValueFromSource (MT 55233) (VInt32 1) s7))"

text \<open>
  The first 10000 ms interval (CurrentState). \<^verbatim>\<open>state?.readValue().value.value.text\<close> is
  undefined when the node is missing or holds no localized text, so the comparison with
  \<^verbatim>\<open>"Running"\<close> fails and the second branch runs. \<open>stateNumber\<close> is used without \<^verbatim>\<open>?.\<close>.
\<close>

definition currentState_tick :: "server \<Rightarrow> (error + unit) \<times> server" where
  "currentState_tick s =
     (case findNode (MT 55188) s of (state, s1) \<Rightarrow>
      case findNode (MT 55190) s1 of (stateNumber, s2) \<Rightarrow>
        if state = Some (VLocalizedText ''Running'')
        then (let s3 = setValueFromSource (MT 55188) (VLocalizedText ''Ended'') s2
              in case stateNumber of
                   None \<Rightarrow> (Inl TypeError, s3)
                 | Some _ \<Rightarrow> (Inr (), setValueFromSource (MT 55190) (VNodeId 2) s3))
        else (let s3 = (case state of
                          None \<Rightarrow> s2
                        | Some _ \<Rightarrow> setValueFromSource (MT 55188) (VLocalizedText ''Running'') s2)
              in case stateNumber of
                   None \<Rightarrow> (Inl TypeError, s3)
                 | Some _ \<Rightarrow> (Inr (), setValueFromSource (MT 55190) (VNodeId 1) s3)))"

text \<open>The second 10000 ms interval (MachineryItemState).\<close>

definition machineryItemState_tick :: "server \<Rightarrow> (error + unit) \<times> server" where
  "machineryItemState_tick s =
     (case findNode (MT 6011) s of (state, s1) \<Rightarrow>
      case findNode (MT 6012) s1 of (stateNumber, s2) \<Rightarrow>
        if state = Some (VLocalizedText ''Executing'')
        then (let s3 = setValueFromSource (MT 6011) (VLocalizedText ''NotExecuting'') s2
              in case stateNumber of
                   None \<Rightarrow> (Inl TypeError, s3)
                 | Some _ \<Rightarrow> (Inr (), setValueFromSource (MT 6012) (VNodeId 2) s3))
        else (let s3 = (case state of
                          None \<Rightarrow> s2
                        | Some _ \<Rightarrow> setValueFromSource (MT 6011) (VLocalizedText ''Executing'') s2)
              in case stateNumber of
                   None \<Rightarrow> (Inl TypeError, s3)
                 | Some _ \<Rightarrow> (Inr (), setValueFromSource (MT 6012) (VNodeId 1) s3)))"

text \<open>
  The 1000 ms interval of FeedOverride. \<open>override\<close> is updated before the node is resolved;
  \<open>feedOverride\<close> is used without \<^verbatim>\<open>?.\<close>.
\<close>

definition feedOverride_tick :: "server \<Rightarrow> (error + unit) \<times> server" where
  "feedOverride_tick s =
     (let v = num_add (override s) (Fin 5);
          v' = (if num_gt v (Fin 120) then Fin 50 else v);
          s1 = s\<lparr>override := v'\<rparr>
      in case findNode (MT 55229) s1 of
           (None, s2) \<Rightarrow> (Inl TypeError, s2)
         | (Some _, s2) \<Rightarrow> (Inr (), setValueFromSource (MT 55229) (VDouble v') s2))"

section \<open>The address-space service\<close>

text \<open>
  Modelled from the spec: the external write of the Variable Store, which the address-space
  service performs and which is not code of this repository (section 4.1: a write validates
  against the declared range when present; a variable with a computed getter and no stored
  backing value is read-only with respect to external writers). \<open>writeValue\<close> is the write
  to a variable with a value binding, \<open>writeStored\<close> the write to a stored node with its
  declared range, if any.
\<close>

definition writeValue :: "value_binding \<Rightarrow> number \<Rightarrow> server \<Rightarrow> StatusCode \<times> server" where
  "writeValue b w s =
     (case setter b of
        None \<Rightarrow> (BadNotWritable, s)
      | Some f \<Rightarrow> f w s)"

definition writeStored ::
  "(number \<times> number) option \<Rightarrow> nodeid \<Rightarrow> number \<Rightarrow> server \<Rightarrow> StatusCode \<times> server" where
  "writeStored rng i w s =
     (case rng of
        None \<Rightarrow> (Good, setValueFromSource i (VDouble w) s)
      | Some (lo, hi) \<Rightarrow>
          if in_range lo hi w then (Good, setValueFromSource i (VDouble w) s)
          else (BadOutOfRange, s))"

text \<open>
  Modelled from the spec: the band classification of the limit alarm, which the alarm object
  of the address-space service performs and which is not code of this repository (section
  4.5: below lowlow, LowLow; [lowlow, low), Low; [low, high], inactive; (high, highhigh],
  High; above highhigh, HighHigh).
\<close>

datatype band = LowLow | Low | Normal | High | HighHigh

definition classify :: "limit_alarm \<Rightarrow> real \<Rightarrow> band" where
  "classify a v =
     (if v < lowLowLimit a then LowLow
      else if lowLowLimit a \<le> v \<and> v < lowLimit a then Low
      else if lowLimit a \<le> v \<and> v \<le> highLimit a then Normal
      else if highLimit a < v \<and> v \<le> highHighLimit a then High
      else HighHigh)"

section \<open>The scheduler\<close>

text \<open>
  What can happen to the server once both logic functions have run: a tick of one of the six
  intervals, or an external write to one of the two variables with a value binding. A tick
  that throws keeps the assignments made before the throw; for the tick of the counter that
  is \<open>count_advance\<close>, whatever the variant constructor does.
\<close>

datatype action =
    CountTick
  | MyValueTick
  | ConditionTick nat
  | CurrentStateTick
  | MachineryItemStateTick
  | FeedOverrideTick
  | WriteMySeverity number
  | WriteMyVar number

fun step :: "server \<Rightarrow> action \<Rightarrow> server" where
  "step s CountTick = count_advance s"
| "step s MyValueTick = myValue_tick s"
| "step s (ConditionTick now) = condition_tick now s"
| "step s CurrentStateTick = snd (currentState_tick s)"
| "step s MachineryItemStateTick = snd (machineryItemState_tick s)"
| "step s FeedOverrideTick = snd (feedOverride_tick s)"
| "step s (WriteMySeverity w) = snd (writeValue mySeverity w s)"
| "step s (WriteMyVar w) = snd (writeValue myVar w s)"

definition run :: "server \<Rightarrow> action list \<Rightarrow> server" where
  "run s as = foldl step s as"

text \<open>
  The server before the logic functions run, on an address space that holds the nodes \<open>ns\<close>:
  no closure variable is assigned, and neither the condition nor the alarm exists. The fields
  hold placeholders, none of which is a value that the start assigns.
\<close>

definition unstarted :: "(nodeid \<rightharpoonup> variant) \<Rightarrow> server" where
  "unstarted ns =
     \<lparr>count = NaN, myValue = NaN,
      cond = \<lparr>severity = 0, message = [], retain = False, time = 0\<rparr>,
      alarm = \<lparr>highHighLimit = 0, highLimit = 0, lowLimit = 0, lowLowLimit = 0,
               alarm_retain = False\<rparr>,
      override = NaN, nodes = ns, resolved = []\<rparr>"

text \<open>The server after both logic functions have run.\<close>

definition started :: "nat \<Rightarrow> (nodeid \<rightharpoonup> variant) \<Rightarrow> server" where
  "started now ns =
     snd (createShowCaseMachineToolLogic
            (createOwnServerAddressspaceLogic now (unstarted ns)))"

section \<open>User lookup (user.ts)\<close>

record User =
  username :: string
  password :: string
  roles :: string

text \<open>
  \<^verbatim>\<open>getUser\<close>: the entries with the given name; more than one is reported and gives null,
  none gives \<^verbatim>\<open>user[0]\<close> of an empty array, which is undefined. Both are falsy for the
  caller.
\<close>

definition getUser :: "string \<Rightarrow> User list \<Rightarrow> User option" where
  "getUser name users =
     (let user = filter (\<lambda>item. username item = name) users
      in if length user > 1 then None
         else (case user of [] \<Rightarrow> None | u # _ \<Rightarrow> Some u))"

text \<open>
  \<^verbatim>\<open>isValidUserAsync\<close>. \<open>compare\<close> is bcrypt's comparison, a parameter here: it hands
  \<^verbatim>\<open>(err, result)\<close> to its callback once, \<open>Inl e\<close> for an error and \<open>Inr b\<close> for the
  outcome \<open>b\<close>. The result is the pair of arguments that \<^verbatim>\<open>callback\<close> receives; the module's
  user list is the parameter \<open>userList\<close>.
\<close>

definition isValidUserAsync ::
  "(string \<Rightarrow> string \<Rightarrow> 'e + bool) \<Rightarrow> User list \<Rightarrow> string \<Rightarrow> string \<Rightarrow> 'e option \<times> bool" where
  "isValidUserAsync compare userList name pw =
     (case getUser name userList of
        Some user \<Rightarrow>
          (case compare pw (password user) of
             Inr True \<Rightarrow> (None, True)
           | _ \<Rightarrow> (None, False))
      | None \<Rightarrow> (None, False))"

section \<open>What the ticks and the writes leave alone\<close>

lemmas tick_defs = count_advance_def myValue_tick_def condition_tick_def currentState_tick_def
  machineryItemState_tick_def feedOverride_tick_def writeValue_def mySeverity_def myVar_def
  mySeverity_set_def findNode_def setValueFromSource_def Let_def

lemma step_alarm: "alarm (step s a) = alarm s"
  by (cases a) (auto simp: tick_defs split: option.splits prod.splits)

lemma step_retain: "retain (cond (step s a)) = retain (cond s)"
  by (cases a) (auto simp: tick_defs cond_tick_def split: option.splits prod.splits)

lemma step_myValue:
  "myValue (step s a) = (if a = MyValueTick then myValue (myValue_tick s) else myValue s)"
  by (cases a) (auto simp: tick_defs split: option.splits prod.splits)

lemma step_override:
  "override (step s a) =
     (if a = FeedOverrideTick then override (snd (feedOverride_tick s)) else override s)"
  by (cases a) (auto simp: tick_defs split: option.splits prod.splits)

lemma step_count:
  "\<forall>w. a \<noteq> WriteMySeverity w \<Longrightarrow>
   count (step s a) = (if a = CountTick then count (count_advance s) else count s)"
  by (cases a) (auto simp: tick_defs split: option.splits prod.splits)

lemma count_tick_state: "snd (count_tick toInt32 s) = count_advance s"
  by (simp add: count_tick_def Let_def split: sum.splits)

lemma setIfFound_fields:
  "count (setIfFound i v s) = count s" "myValue (setIfFound i v s) = myValue s"
  "cond (setIfFound i v s) = cond s" "alarm (setIfFound i v s) = alarm s"
  "override (setIfFound i v s) = override s"
  "resolved (setIfFound i v s) = resolved s @ [i]"
  by (auto simp: setIfFound_def findNode_def setValueFromSource_def split: option.splits)

lemma started_fields:
  "count (started now ns) = Fin 100" "myValue (started now ns) = Fin 25"
  "cond (started now ns) = cond_init now" "alarm (started now ns) = alarm_init"
  "override (started now ns) = Fin 50"
  "resolved (started now ns) =
     [DI 15106, MT 55186, MT 55185, MT 55188, MT 55238, MT 55240, MT 55233]"
  by (auto simp: started_def unstarted_def createShowCaseMachineToolLogic_def
      createOwnServerAddressspaceLogic_def setIfFound_fields findNode_def
      setValueFromSource_def Let_def split: option.splits prod.splits)

lemma run_snoc: "run s (as @ [a]) = step (run s as) a"
  by (simp add: run_def)

section \<open>The ranged variable MySeverity\<close>

text \<open>
  For every write that is a number other than NaN, the setter does what the range asks:
  inside \<open>[100, 1000]\<close> the value is stored and the status is Good, outside it the state is
  untouched and the status is BadOutOfRange.
\<close>

lemma mySeverity_set_range:
  "w \<noteq> NaN \<Longrightarrow>
   mySeverity_set w s =
     (if in_range (Fin 100) (Fin 1000) w then (Good, s\<lparr>count := w\<rparr>) else (BadOutOfRange, s))"
  by (cases w) (auto simp: in_range_def mySeverity_set_def num_gt_def num_le_def)

text \<open>Once the counter is NaN, the 60000 ms tick cannot bring it back.\<close>

lemma count_tick_NaN: "count s = NaN \<Longrightarrow> count (snd (count_tick toInt32 s)) = NaN"
  by (simp add: count_tick_state count_advance_def num_gt_def Let_def)

text \<open>
  C1. A write outside \<open>[100, 1000]\<close> must leave the stored value as it was and report
  BadOutOfRange. The setter tests \<^verbatim>\<open>value > 1000 || value < 100\<close>, and both comparisons are
  false for NaN: the write of NaN, which is in no range, is answered with Good and NaN is
  stored.
\<close>

theorem mySeverity_set_NaN:
  "\<not> in_range (Fin 100) (Fin 1000) NaN
   \<and> mySeverity_set NaN s = (Good, s\<lparr>count := NaN\<rparr>)
   \<and> writeValue mySeverity NaN s = (Good, s\<lparr>count := NaN\<rparr>)"
  by (simp add: in_range_def mySeverity_set_def writeValue_def mySeverity_def num_gt_def)

section \<open>The wrapping counter\<close>

text \<open>
  Without a write to MySeverity the counter depends only on the number \<open>k\<close> of its ticks so
  far: it is \<open>100 + 50 * (k mod 19)\<close>, from 100 up to 1000 in steps of 50 and, on the tick
  that would give 1050, back to exactly 100.
\<close>

lemma count_advance_closed:
  assumes "count s = Fin (100 + 50 * of_nat (k mod 19))"
  shows "count (count_advance s) = Fin (100 + 50 * of_nat (Suc k mod 19))"
proof -
  have "k mod 19 < 19" by simp
  then have "k mod 19 = 18 \<or> k mod 19 < 18" by linarith
  then show ?thesis using assms
    by (auto simp: count_advance_def Let_def num_gt_def mod_Suc)
qed

lemma run_count_closed:
  "\<forall>w. WriteMySeverity w \<notin> set as \<Longrightarrow>
   count (run (started now ns) as)
     = Fin (100 + 50 * of_nat (length (filter (\<lambda>a. a = CountTick) as) mod 19))"
proof (induction as rule: rev_induct)
  case Nil
  show ?case by (simp add: run_def started_fields)
next
  case (snoc a as)
  then have ih: "count (run (started now ns) as)
     = Fin (100 + 50 * of_nat (length (filter (\<lambda>a. a = CountTick) as) mod 19))"
    and a: "\<forall>w. a \<noteq> WriteMySeverity w"
    by auto
  show ?case
  proof (cases "a = CountTick")
    case True
    then show ?thesis
      using count_advance_closed [OF ih] by (simp add: run_snoc)
  next
    case False
    then show ?thesis using ih a by (simp add: run_snoc step_count del: step.simps)
  qed
qed

text \<open>
  C4. After every tick the wrapping counter must lie in \<open>[100, 1000]\<close>. The counter is the
  variable that the setter of MySeverity assigns, and that setter accepts NaN (C1). The tick
  then computes \<^verbatim>\<open>NaN + 50\<close>, finds \<^verbatim>\<open>count > 1000\<close> false and keeps NaN: after the write,
  the value after each of any number of ticks is NaN, which is not in \<open>[100, 1000]\<close>, and
  the reset to 100 never comes.
\<close>

theorem count_tick_after_NaN:
  "count (run (started now ns) (WriteMySeverity NaN # replicate n CountTick)) = NaN
   \<and> \<not> in_range (Fin 100) (Fin 1000)
        (count (run (started now ns) (WriteMySeverity NaN # replicate n CountTick)))"
proof -
  have "count (run (started now ns) (WriteMySeverity NaN # replicate n CountTick)) = NaN"
  proof (induction n)
    case 0
    show ?case
      by (simp add: run_def writeValue_def mySeverity_def mySeverity_set_def num_gt_def)
  next
    case (Suc n)
    have "WriteMySeverity NaN # replicate (Suc n) CountTick
            = (WriteMySeverity NaN # replicate n CountTick) @ [CountTick]"
      by (simp add: replicate_append_same)
    then show ?case using Suc
      by (simp only: run_snoc) (simp add: count_advance_def num_gt_def Let_def)
  qed
  then show ?thesis by (simp add: in_range_def)
qed

section \<open>The condition state machine\<close>

text \<open>
  C2. Every tick of the condition flips its state, whatever the condition was, sets the
  severity to 800 when it leaves Good and to 150 when it leaves Bad, and stores the time of
  the tick. So after any sequence of ticks at the times \<open>ts\<close>, from the condition as it is
  created, the state is Good after an even number of ticks and Bad after an odd number, the
  severity is 150 or 800 accordingly, and the time is that of the last tick.
\<close>

theorem condition_alternation:
  "state_of (cond_tick t c) \<noteq> state_of c
   \<and> severity (cond_tick t c) = (if state_of c = StateGood then 800 else 150)
   \<and> time (cond_tick t c) = t
   \<and> (let c' = foldl (\<lambda>c t. cond_tick t c) (cond_init t0) ts
      in state_of c' = (if even (length ts) then StateGood else StateBad)
         \<and> severity c' = (if even (length ts) then 150 else 800)
         \<and> time c' = last (t0 # ts))"
proof -
  have one: "state_of (cond_tick t c) \<noteq> state_of c" "time (cond_tick t c) = t"
    "severity (cond_tick t c) = (if state_of c = StateGood then 800 else 150)"
    by (simp_all add: state_of_def cond_tick_def good_text_def bad_text_def)
  have "message (foldl (\<lambda>c t. cond_tick t c) (cond_init t0) ts)
          = (if even (length ts) then good_text else bad_text)
        \<and> severity (foldl (\<lambda>c t. cond_tick t c) (cond_init t0) ts)
          = (if even (length ts) then 150 else 800)
        \<and> time (foldl (\<lambda>c t. cond_tick t c) (cond_init t0) ts) = last (t0 # ts)"
  proof (induction ts rule: rev_induct)
    case Nil
    show ?case by (simp add: cond_init_def)
  next
    case (snoc t ts)
    then show ?case by (simp add: cond_tick_def good_text_def bad_text_def)
  qed
  then show ?thesis using one
    by (simp add: state_of_def Let_def good_text_def bad_text_def)
qed

text \<open>
  The messages of the condition are \<^verbatim>\<open>"MyCondition is Good!"\<close> and
  \<^verbatim>\<open>"MyCondition is Bad!"\<close>, not \<^verbatim>\<open>"Good!"\<close> and \<^verbatim>\<open>"Bad!"\<close>; and the tick compares with the
  full good text, so a condition whose message were \<^verbatim>\<open>"Good!"\<close> would not turn bad.
\<close>

theorem condition_scenario_counterexample:
  "message (cond_init 0) \<noteq> ''Good!''
   \<and> message (cond_tick 1 (cond_init 0)) \<noteq> ''Bad!''
   \<and> message (cond_tick 1 ((cond_init 0)\<lparr>message := ''Good!''\<rparr>)) \<noteq> ''Bad!''
   \<and> severity (cond_tick 1 ((cond_init 0)\<lparr>message := ''Good!''\<rparr>)) \<noteq> 800"
  by (simp add: cond_init_def cond_tick_def good_text_def bad_text_def)

text \<open>
  C3, amended. The condition is created with the message "MyCondition is Good!", severity
  150 and retain true. After one tick the message is "MyCondition is Bad!", the severity is
  800, retain is still true and the time is that of the tick; after a second tick the
  message is "MyCondition is Good!" again and the severity 150. No tick changes retain, and
  it is true in every state that the started server reaches.
\<close>

theorem condition_scenario:
  "(let c0 = cond_init t0; c1 = cond_tick t1 c0; c2 = cond_tick t2 c1
    in message c0 = ''MyCondition is Good!'' \<and> severity c0 = 150 \<and> retain c0
       \<and> message c1 = ''MyCondition is Bad!'' \<and> severity c1 = 800 \<and> retain c1
       \<and> time c1 = t1
       \<and> message c2 = ''MyCondition is Good!'' \<and> severity c2 = 150 \<and> retain c2
       \<and> time c2 = t2)
   \<and> retain (cond_tick t c) = retain c
   \<and> retain (cond (run (started t0 ns) as))"
proof -
  have "retain (cond (run (started t0 ns) as))"
    by (induction as rule: rev_induct)
      (simp_all add: run_snoc step_retain, simp add: run_def started_fields cond_init_def)
  then show ?thesis
    by (simp add: cond_init_def cond_tick_def good_text_def bad_text_def Let_def)
qed

section \<open>The limit alarm\<close>

lemma run_alarm: "alarm (run s as) = alarm s"
  by (induction as rule: rev_induct) (simp_all add: run_snoc step_alarm, simp add: run_def)

text \<open>
  C5. \<^verbatim>\<open>createOwnServerAddressspaceLogic\<close> creates the alarm with the thresholds lowlow = -5,
  low = 20, high = 40 and highhigh = 50, whatever the server held before; they are ordered,
  and no tick and no write changes them. With these thresholds the band function of the
  specification gives, for every input \<open>v\<close>: LowLow exactly below -5, Low exactly on
  \<open>[-5, 20)\<close>, Normal exactly on \<open>[20, 40]\<close>, High exactly on \<open>(40, 50]\<close> and HighHigh exactly
  above 50. In particular -10, 0, 30, 45 and 60 fall in LowLow, Low, Normal, High and
  HighHigh.
\<close>

theorem alarm_classification:
  "alarm (createOwnServerAddressspaceLogic now s) = alarm_init
   \<and> alarm (run (started now ns) as) = alarm_init
   \<and> lowLowLimit alarm_init = - 5 \<and> lowLimit alarm_init = 20
   \<and> highLimit alarm_init = 40 \<and> highHighLimit alarm_init = 50
   \<and> lowLowLimit alarm_init \<le> lowLimit alarm_init
   \<and> lowLimit alarm_init \<le> highLimit alarm_init
   \<and> highLimit alarm_init \<le> highHighLimit alarm_init
   \<and> (classify (alarm (run (started now ns) as)) v = LowLow) = (v < - 5)
   \<and> (classify (alarm (run (started now ns) as)) v = Low) = (- 5 \<le> v \<and> v < 20)
   \<and> (classify (alarm (run (started now ns) as)) v = Normal) = (20 \<le> v \<and> v \<le> 40)
   \<and> (classify (alarm (run (started now ns) as)) v = High) = (40 < v \<and> v \<le> 50)
   \<and> (classify (alarm (run (started now ns) as)) v = HighHigh) = (50 < v)
   \<and> map (classify (alarm (run (started now ns) as))) [- 10, 0, 30, 45, 60]
       = [LowLow, Low, Normal, High, HighHigh]"
proof -
  have created: "alarm (createOwnServerAddressspaceLogic now s) = alarm_init"
    by (simp add: createOwnServerAddressspaceLogic_def findNode_def)
  have kept: "alarm (run (started now ns) as) = alarm_init"
    by (simp add: run_alarm started_fields)
  have bands:
    "(classify alarm_init v = LowLow) = (v < - 5)"
    "(classify alarm_init v = Low) = (- 5 \<le> v \<and> v < 20)"
    "(classify alarm_init v = Normal) = (20 \<le> v \<and> v \<le> 40)"
    "(classify alarm_init v = High) = (40 < v \<and> v \<le> 50)"
    "(classify alarm_init v = HighHigh) = (50 < v)"
    by (auto simp: classify_def alarm_init_def)
  have points:
    "map (classify alarm_init) [- 10, 0, 30, 45, 60] = [LowLow, Low, Normal, High, HighHigh]"
    by (simp add: classify_def alarm_init_def)
  show ?thesis
    unfolding kept using created bands points by (simp add: alarm_init_def)
qed

section \<open>The ramp of MyVar\<close>

lemma myValue_tick_closed:
  assumes "myValue s = Fin (of_nat (k mod 85) - 25)"
  shows "myValue (myValue_tick s) = Fin (of_nat (Suc k mod 85) - 25)"
proof -
  have "k mod 85 < 85" by simp
  then have "k mod 85 = 84 \<or> k mod 85 < 84" by linarith
  then show ?thesis using assms
    by (auto simp: myValue_tick_def Let_def mod_Suc)
qed

lemma run_myValue:
  "myValue (run (started now ns) as)
     = Fin (of_nat ((length (filter (\<lambda>a. a = MyValueTick) as) + 50) mod 85) - 25)"
proof (induction as rule: rev_induct)
  case Nil
  show ?case by (simp add: run_def started_fields)
next
  case (snoc a as)
  show ?case
  proof (cases "a = MyValueTick")
    case True
    then show ?thesis
      using myValue_tick_closed [OF snoc.IH] by (simp add: run_snoc)
  next
    case False
    then show ?thesis using snoc.IH by (simp add: run_snoc step_myValue)
  qed
qed

text \<open>
  C6. The 1000 ms tick of MyVar adds 1 and replaces a sum that reaches or exceeds 60 by -25.
  The value binding of MyVar has a getter, which returns the ramp's value, and no setter: an
  external write is refused and changes nothing. So the value of the started server depends
  only on the number \<open>k\<close> of ramp ticks so far, whatever else happened: it is
  \<open>(k + 50) mod 85 - 25\<close>, which starts at 25, climbs to 59 and falls to -25.
\<close>

theorem myVar_ramp:
  "myValue (myValue_tick s)
     = (if num_ge (num_add (myValue s) (Fin 1)) (Fin 60) then Fin (- 25)
        else num_add (myValue s) (Fin 1))
   \<and> myValue (run (started now ns) as)
     = Fin (of_nat ((length (filter (\<lambda>a. a = MyValueTick) as) + 50) mod 85) - 25)
   \<and> getter myVar s = VDouble (myValue s)
   \<and> setter myVar = None
   \<and> writeValue myVar w s = (BadNotWritable, s)"
  by (simp add: run_myValue)
    (simp add: myValue_tick_def myVar_def myVar_get_def writeValue_def Let_def)

section \<open>The override percentage of FeedOverride\<close>

lemma feedOverride_tick_closed:
  assumes "override s = Fin (50 + 5 * of_nat (k mod 15))"
  shows "override (snd (feedOverride_tick s)) = Fin (50 + 5 * of_nat (Suc k mod 15))"
proof -
  have "k mod 15 < 15" by simp
  then have "k mod 15 = 14 \<or> k mod 15 < 14" by linarith
  then show ?thesis using assms
    by (auto simp: feedOverride_tick_def findNode_def setValueFromSource_def Let_def
        num_gt_def mod_Suc split: option.splits)
qed

lemma run_override:
  "override (run (started now ns) as)
     = Fin (50 + 5 * of_nat (length (filter (\<lambda>a. a = FeedOverrideTick) as) mod 15))"
proof (induction as rule: rev_induct)
  case Nil
  show ?case by (simp add: run_def started_fields)
next
  case (snoc a as)
  show ?case
  proof (cases "a = FeedOverrideTick")
    case True
    then show ?thesis
      using feedOverride_tick_closed [OF snoc.IH] by (simp add: run_snoc)
  next
    case False
    then show ?thesis using snoc.IH by (simp add: run_snoc step_override)
  qed
qed

text \<open>
  C7. The 1000 ms tick of FeedOverride adds 5 to the override and replaces a sum above 120 by
  50; when the node exists, the tick succeeds and stores the new value in the node, where a
  reader finds it and where an external write of the Variable Store replaces it (MyVar, in
  contrast, has a getter and refuses the write). After \<open>k\<close> such ticks of the started server
  the override is \<open>50 + 5 * (k mod 15)\<close>: from 50 up to 120 and back to 50.
\<close>

theorem feedOverride_sawtooth:
  assumes "nodes s (MT 55229) \<noteq> None"
  shows "let v = num_add (override s) (Fin 5);
             v' = (if num_gt v (Fin 120) then Fin 50 else v);
             s' = snd (feedOverride_tick s)
         in fst (feedOverride_tick s) = Inr ()
            \<and> override s' = v'
            \<and> nodes s' (MT 55229) = Some (VDouble v')
            \<and> fst (writeStored None (MT 55229) w s') = Good
            \<and> nodes (snd (writeStored None (MT 55229) w s')) (MT 55229) = Some (VDouble w)
            \<and> override (run (started now ns) as)
                = Fin (50 + 5 * of_nat (length (filter (\<lambda>a. a = FeedOverrideTick) as) mod 15))"
  using assms
  by (simp add: run_override)
    (auto simp: feedOverride_tick_def findNode_def setValueFromSource_def writeStored_def
      Let_def)

text \<open>At 120 the next tick stores 50 in the node.\<close>

theorem feedOverride_sawtooth_witness:
  "nodes \<lparr>count = Fin 100, myValue = Fin 25, cond = cond_init 0, alarm = alarm_init,
          override = Fin 120, nodes = [MT 55229 \<mapsto> VDouble (Fin 120)], resolved = []\<rparr>
      (MT 55229) \<noteq> None
   \<and> nodes (snd (feedOverride_tick
         \<lparr>count = Fin 100, myValue = Fin 25, cond = cond_init 0, alarm = alarm_init,
          override = Fin 120, nodes = [MT 55229 \<mapsto> VDouble (Fin 120)], resolved = []\<rparr>))
      (MT 55229) = Some (VDouble (Fin 50))"
  using feedOverride_sawtooth [of
     "\<lparr>count = Fin 100, myValue = Fin 25, cond = cond_init 0, alarm = alarm_init,
          override = Fin 120, nodes = [MT 55229 \<mapsto> VDouble (Fin 120)], resolved = []\<rparr>"]
  by (simp add: num_gt_def Let_def)

section \<open>The address-space accessor\<close>

lemma step_resolved:
  "resolved (step s a)
     = resolved s @
       (case a of
          CurrentStateTick \<Rightarrow> [MT 55188, MT 55190]
        | MachineryItemStateTick \<Rightarrow> [MT 6011, MT 6012]
        | FeedOverrideTick \<Rightarrow> [MT 55229]
        | _ \<Rightarrow> [])"
  by (cases a) (auto simp: tick_defs split: option.splits prod.splits)

text \<open>
  A tick of FeedOverride on the started server resolves a node; and the node 55188, resolved
  once at the start, is resolved a second time by the first tick of CurrentState.
\<close>

theorem tick_resolves_counterexample:
  "resolved (step (started 0 Map.empty) FeedOverrideTick)
     = resolved (started 0 Map.empty) @ [MT 55229]
   \<and> count_list (resolved (started 0 Map.empty)) (MT 55188) = 1
   \<and> count_list (resolved (step (started 0 Map.empty) CurrentStateTick)) (MT 55188) = 2"
  by (simp add: step_resolved started_fields del: step.simps)

text \<open>
  C8, amended. The two logic functions resolve seven identifiers when they start. After that,
  the ticks of the event counter, of MyVar and of the condition and the external writes
  resolve nothing; every tick of CurrentState resolves the nodes 55188 and 55190, every tick
  of MachineryItemState the nodes 6011 and 6012, and every tick of FeedOverride the node
  55229.
\<close>

theorem tick_resolution:
  "resolved (started now ns)
     = [DI 15106, MT 55186, MT 55185, MT 55188, MT 55238, MT 55240, MT 55233]
   \<and> resolved (step s a)
     = resolved s @
       (case a of
          CurrentStateTick \<Rightarrow> [MT 55188, MT 55190]
        | MachineryItemStateTick \<Rightarrow> [MT 6011, MT 6012]
        | FeedOverrideTick \<Rightarrow> [MT 55229]
        | _ \<Rightarrow> [])"
  by (simp add: started_fields step_resolved del: step.simps)

section \<open>User lookup\<close>

text \<open>
  C9. When two or more entries of the user list have the given name, \<open>getUser\<close> returns
  null, and \<open>isValidUserAsync\<close> calls back with \<open>(null, false)\<close>, whatever the password and
  whatever bcrypt would say.
\<close>

theorem getUser_duplicate:
  assumes "length (filter (\<lambda>u. username u = name) users) > 1"
  shows "getUser name users = None \<and> isValidUserAsync compare users name pw = (None, False)"
  using assms by (simp add: getUser_def isValidUserAsync_def)

theorem getUser_duplicate_witness:
  "length (filter (\<lambda>u. username u = ''bob'')
      [\<lparr>username = ''bob'', password = ''h1'', roles = ''Operator''\<rparr>,
       \<lparr>username = ''bob'', password = ''h2'', roles = ''Engineer''\<rparr>]) > 1
   \<and> isValidUserAsync (\<lambda>p h. Inr True :: unit + bool)
      [\<lparr>username = ''bob'', password = ''h1'', roles = ''Operator''\<rparr>,
       \<lparr>username = ''bob'', password = ''h2'', roles = ''Engineer''\<rparr>] ''bob'' ''pw''
      = (None, False)"
  using getUser_duplicate [of "''bob''"
      "[\<lparr>username = ''bob'', password = ''h1'', roles = ''Operator''\<rparr>,
        \<lparr>username = ''bob'', password = ''h2'', roles = ''Engineer''\<rparr>]"
      "\<lambda>p h. Inr True :: unit + bool" "''pw''"]
  by simp

text \<open>
  C10. For every user list, name and password, and whatever bcrypt answers,
  \<open>isValidUserAsync\<close> calls back with a null error. The authorization is true exactly when
  the name has a single entry and bcrypt answers true for its hash: an error of bcrypt, a
  failed comparison and an unknown user all give false.
\<close>

theorem isValidUserAsync_no_error:
  "isValidUserAsync compare users name pw
     = (None, case getUser name users of
                None \<Rightarrow> False
              | Some user \<Rightarrow> compare pw (password user) = Inr True)"
  by (auto simp: isValidUserAsync_def split: option.splits sum.splits bool.splits)

end
